theory Spec2Isabelle
  imports Main
begin

section \<open>Layer descriptors and pipelines\<close>

text \<open>
  The module \<^verbatim>\<open>rllib/core/models/tf/primitives.py\<close> defines three Keras models,
  \<^verbatim>\<open>TfMLP\<close>, \<^verbatim>\<open>TfCNN\<close> and \<^verbatim>\<open>TfCNNTranspose\<close>. Each constructor appends layer
  objects to a Python list and wraps the list into \<^verbatim>\<open>tf.keras.Sequential\<close>. The
  embedding records a layer by its constructor and the keyword arguments the source
  passes to it; what Keras computes with a layer is outside this module.
\<close>

text \<open>
  The two things a constructor can raise: a failed \<^verbatim>\<open>assert\<close>, and whatever
  \<^verbatim>\<open>get_activation_fn\<close> raises for an activation it does not know.
\<close>

datatype error = AssertionError | ActivationError

text \<open>
  An activation argument is \<^verbatim>\<open>Union[str, Callable]\<close>: a name or a callable.
\<close>

datatype 'f activation_arg = ActName string | ActCallable 'f

text \<open>
  \<^verbatim>\<open>get_activation_fn\<close> is imported from \<^verbatim>\<open>ray.rllib.models.utils\<close> and is not part
  of this module, so every constructor takes it as its first argument. It either
  raises or returns a Python value that may be \<^verbatim>\<open>None\<close>; \<open>'f option\<close> keeps
  that \<^verbatim>\<open>None\<close> the same value as the literal \<^verbatim>\<open>None\<close> the constructors pass as
  \<^verbatim>\<open>activation=None\<close>.
\<close>

type_synonym 'f resolver = "'f activation_arg \<Rightarrow> error + 'f option"

text \<open>
  \<^verbatim>\<open>kernel_size\<close> and \<^verbatim>\<open>strides\<close> are a single int (square) or a width x height
  pair. A filter specifier is the triple the loop header unpacks.
\<close>

datatype size2d = Square int | WxH int int

type_synonym filter_spec = "int \<times> size2d \<times> size2d"

text \<open>
  A Python float literal \<^verbatim>\<open>m e x\<close>, kept as written: \<open>Float_lit 1 (-5)\<close> is the
  literal \<^verbatim>\<open>1e-5\<close>.
\<close>

datatype float_lit = Float_lit int int

text \<open>
  The layers the module creates, with the arguments in the order the source writes
  them: \<^verbatim>\<open>Input(shape)\<close>, \<^verbatim>\<open>Dense(units, activation, use_bias)\<close>,
  \<^verbatim>\<open>LayerNormalization(axis, epsilon)\<close>, \<^verbatim>\<open>Activation(activation)\<close>,
  \<^verbatim>\<open>Conv2D(filters, kernel_size, strides, padding, use_bias, activation)\<close> and
  \<^verbatim>\<open>Conv2DTranspose(filters, kernel_size, strides, padding, activation, use_bias)\<close>.
  \<open>None\<close> as the axis of \<open>LayerNormalization\<close> means that the source passes no
  \<^verbatim>\<open>axis\<close> argument (Keras then normalizes over the last, feature axis).
\<close>

datatype 'f layer =
    Input "int list"
  | Dense int (layer_activation: "'f option") (layer_use_bias: bool)
  | LayerNormalization "int list option" float_lit
  | Activation "'f option"
  | Conv2D int size2d size2d string (layer_use_bias: bool) (layer_activation: "'f option")
  | Conv2DTranspose int size2d size2d string (layer_activation: "'f option")
      (layer_use_bias: bool)

datatype dtype = tf_float16 | tf_float32 | tf_float64 | tf_int32 | tf_int64 | tf_uint8

section \<open>TfMLP\<close>

record 'f TfMLP =
  network :: "'f layer list"

text \<open>
  The loop \<^verbatim>\<open>for i in range(len(hidden_layer_dims))\<close>, run over the list of indices,
  with the list \<^verbatim>\<open>layers\<close> it appends to as accumulator. Every index of the range is
  below the length, so \<^verbatim>\<open>hidden_layer_dims[i]\<close> never raises.
\<close>

fun TfMLP_loop ::
  "int list \<Rightarrow> bool \<Rightarrow> 'f option \<Rightarrow> bool \<Rightarrow> nat list \<Rightarrow> 'f layer list \<Rightarrow> 'f layer list"
where
  "TfMLP_loop hidden_layer_dims hidden_layer_use_layernorm hidden_activation use_bias
     [] layers = layers"
| "TfMLP_loop hidden_layer_dims hidden_layer_use_layernorm hidden_activation use_bias
     (i # idxs) layers =
     (let layers1 = layers @
            [Dense (hidden_layer_dims ! i)
               (if \<not> hidden_layer_use_layernorm then hidden_activation else None)
               use_bias];
          layers2 =
            (if hidden_layer_use_layernorm
             then layers1 @ [LayerNormalization None (Float_lit 1 (- 5))] @
                    [Activation hidden_activation]
             else layers1)
      in TfMLP_loop hidden_layer_dims hidden_layer_use_layernorm hidden_activation
           use_bias idxs layers2)"

definition TfMLP_init ::
  "'f resolver \<Rightarrow> int \<Rightarrow> int list \<Rightarrow> bool \<Rightarrow> 'f activation_arg \<Rightarrow> int option \<Rightarrow>
   'f activation_arg \<Rightarrow> bool \<Rightarrow> error + 'f TfMLP"
where
  "TfMLP_init get_activation_fn input_dim hidden_layer_dims hidden_layer_use_layernorm
     hidden_layer_activation output_dim output_activation use_bias =
     (if \<not> input_dim > 0 then Inl AssertionError
      else
        let layers = [Input [input_dim]] in
        case get_activation_fn hidden_layer_activation of
          Inl e \<Rightarrow> Inl e
        | Inr hidden_activation \<Rightarrow>
            let layers = TfMLP_loop hidden_layer_dims hidden_layer_use_layernorm
                           hidden_activation use_bias [0..<length hidden_layer_dims] layers
            in (case output_dim of
                  None \<Rightarrow> Inr \<lparr>network = layers\<rparr>
                | Some d \<Rightarrow>
                    (case get_activation_fn output_activation of
                       Inl e \<Rightarrow> Inl e
                     | Inr out_activation \<Rightarrow>
                         Inr \<lparr>network = layers @ [Dense d out_activation use_bias]\<rparr>)))"

text \<open>
  \<^verbatim>\<open>call\<close> hands the inputs to the Sequential model. Evaluating a Sequential is
  Keras' business: \<open>sequential\<close> is a parameter.
\<close>

definition TfMLP_call :: "('f layer list \<Rightarrow> 't \<Rightarrow> 'r) \<Rightarrow> 'f TfMLP \<Rightarrow> 't \<Rightarrow> 'r" where
  "TfMLP_call sequential self inputs = sequential (network self) inputs"

section \<open>TfCNN\<close>

record 'f TfCNN =
  cnn :: "'f layer list"
  expected_input_dtype :: dtype

text \<open>
  The loop \<^verbatim>\<open>for num_filters, kernel_size, strides in cnn_filter_specifiers\<close>.
\<close>

fun TfCNN_loop ::
  "bool \<Rightarrow> 'f option \<Rightarrow> bool \<Rightarrow> filter_spec list \<Rightarrow> 'f layer list \<Rightarrow> 'f layer list"
where
  "TfCNN_loop cnn_use_layernorm cnn_activation use_bias [] layers = layers"
| "TfCNN_loop cnn_use_layernorm cnn_activation use_bias
     ((num_filters, kernel_size, strides) # rest) layers =
     (let layers1 = layers @
            [Conv2D num_filters kernel_size strides ''same'' use_bias
               (if cnn_use_layernorm then None else cnn_activation)];
          layers2 =
            (if cnn_use_layernorm
             then layers1 @ [LayerNormalization (Some [- 3, - 2, - 1]) (Float_lit 1 (- 5))] @
                    [Activation cnn_activation]
             else layers1)
      in TfCNN_loop cnn_use_layernorm cnn_activation use_bias rest layers2)"

definition TfCNN_init ::
  "'f resolver \<Rightarrow> int list \<Rightarrow> filter_spec list \<Rightarrow> bool \<Rightarrow> 'f activation_arg \<Rightarrow> bool \<Rightarrow>
   error + 'f TfCNN"
where
  "TfCNN_init get_activation_fn input_dims cnn_filter_specifiers cnn_use_layernorm
     cnn_activation use_bias =
     (if \<not> length input_dims = 3 then Inl AssertionError
      else
        case get_activation_fn cnn_activation of
          Inl e \<Rightarrow> Inl e
        | Inr cnn_activation \<Rightarrow>
            let layers = [Input input_dims];
                layers = TfCNN_loop cnn_use_layernorm cnn_activation use_bias
                           cnn_filter_specifiers layers
            in Inr \<lparr>cnn = layers, expected_input_dtype = tf_float32\<rparr>)"

text \<open>
  \<^verbatim>\<open>call\<close> casts the inputs with \<^verbatim>\<open>tf.cast\<close> (a parameter, like \<open>sequential\<close>).
\<close>

definition TfCNN_call ::
  "('f layer list \<Rightarrow> 't \<Rightarrow> 'r) \<Rightarrow> ('t \<Rightarrow> dtype \<Rightarrow> 't) \<Rightarrow> 'f TfCNN \<Rightarrow> 't \<Rightarrow> 'r"
where
  "TfCNN_call sequential tf_cast self inputs =
     sequential (cnn self) (tf_cast inputs (expected_input_dtype self))"

section \<open>TfCNNTranspose\<close>

record 'f TfCNNTranspose =
  cnn_transpose :: "'f layer list"
  expected_input_dtype_transpose :: dtype

text \<open>
  The loop \<^verbatim>\<open>for i, (num_filters, kernel_size, strides) in enumerate(...)\<close>, run over
  the enumerated list; \<open>n\<close> is \<^verbatim>\<open>len(cnn_transpose_filter_specifiers)\<close>, and
  \<^verbatim>\<open>len(...) - 1\<close> is computed on Python's integers.
\<close>

fun TfCNNTranspose_loop ::
  "'f option \<Rightarrow> bool \<Rightarrow> bool \<Rightarrow> nat \<Rightarrow> (nat \<times> filter_spec) list \<Rightarrow> 'f layer list \<Rightarrow>
   'f layer list"
where
  "TfCNNTranspose_loop cnn_transpose_activation cnn_transpose_use_layernorm use_bias n
     [] layers = layers"
| "TfCNNTranspose_loop cnn_transpose_activation cnn_transpose_use_layernorm use_bias n
     ((i, (num_filters, kernel_size, strides)) # rest) layers =
     (let is_final_layer = (int i = int n - 1);
          layers1 = layers @
            [Conv2DTranspose num_filters kernel_size strides ''same''
               (if cnn_transpose_use_layernorm \<or> is_final_layer then None
                else cnn_transpose_activation)
               (use_bias \<or> is_final_layer)];
          layers2 =
            (if cnn_transpose_use_layernorm \<and> \<not> is_final_layer
             then layers1 @ [LayerNormalization (Some [- 3, - 2, - 1]) (Float_lit 1 (- 5))] @
                    [Activation cnn_transpose_activation]
             else layers1)
      in TfCNNTranspose_loop cnn_transpose_activation cnn_transpose_use_layernorm
           use_bias n rest layers2)"

definition TfCNNTranspose_init ::
  "'f resolver \<Rightarrow> int list \<Rightarrow> filter_spec list \<Rightarrow> 'f activation_arg \<Rightarrow> bool \<Rightarrow> bool \<Rightarrow>
   error + 'f TfCNNTranspose"
where
  "TfCNNTranspose_init get_activation_fn input_dims cnn_transpose_filter_specifiers
     cnn_transpose_activation cnn_transpose_use_layernorm use_bias =
     (if \<not> length input_dims = 3 then Inl AssertionError
      else
        case get_activation_fn cnn_transpose_activation of
          Inl e \<Rightarrow> Inl e
        | Inr cnn_transpose_activation \<Rightarrow>
            let layers = [Input input_dims];
                layers = TfCNNTranspose_loop cnn_transpose_activation
                           cnn_transpose_use_layernorm use_bias
                           (length cnn_transpose_filter_specifiers)
                           (enumerate 0 cnn_transpose_filter_specifiers) layers
            in Inr \<lparr>cnn_transpose = layers, expected_input_dtype_transpose = tf_float32\<rparr>)"

definition TfCNNTranspose_call ::
  "('f layer list \<Rightarrow> 't \<Rightarrow> 'r) \<Rightarrow> ('t \<Rightarrow> dtype \<Rightarrow> 't) \<Rightarrow> 'f TfCNNTranspose \<Rightarrow> 't \<Rightarrow> 'r"
where
  "TfCNNTranspose_call sequential tf_cast self inputs =
     sequential (cnn_transpose self) (tf_cast inputs (expected_input_dtype_transpose self))"

section \<open>A resolver to run the constructors with\<close>

text \<open>
  Modelled from the spec: \<^verbatim>\<open>get_activation_fn\<close> (of \<^verbatim>\<open>ray.rllib.models.utils\<close>) is
  not part of this module. The spec describes it as a resolver mapping a name or a
  callable to an executable function, an unrecognized name being a configuration
  error. This instance knows the names that the docstrings of the module give as
  examples; it returns a callable as it is, and no function (\<^verbatim>\<open>None\<close>) for
  \<^verbatim>\<open>"linear"\<close>. A resolved function is represented by its name. The instance only
  serves to run the constructors on concrete inputs: every general theorem below is
  about an arbitrary resolver.
\<close>

definition example_get_activation_fn :: "string resolver" where
  "example_get_activation_fn name =
     (case name of
        ActCallable f \<Rightarrow> Inr (Some f)
      | ActName n \<Rightarrow>
          if n = ''linear'' then Inr None
          else if n \<in> set [''relu'', ''ReLU'', ''silu''] then Inr (Some n)
          else Inl ActivationError)"

section \<open>What the loops append\<close>

text \<open>
  Each loop only ever appends to \<open>layers\<close>: its result is the list it started from,
  followed by one block of layers per item, in the order of the items.
\<close>

lemma TfMLP_loop_append:
  "TfMLP_loop ds ln act b idxs layers =
     layers @ concat (map (\<lambda>i. if ln then [Dense (ds ! i) None b, LayerNormalization None (Float_lit 1 (- 5)), Activation act]
                              else [Dense (ds ! i) act b]) idxs)"
  by (induction idxs arbitrary: layers) simp_all

lemma TfMLP_loop_range:
  "TfMLP_loop ds ln act b [0..<length ds] layers =
     layers @ concat (map (\<lambda>w. if ln then [Dense w None b, LayerNormalization None (Float_lit 1 (- 5)), Activation act]
                              else [Dense w act b]) ds)"
proof -
  have "map (\<lambda>i. if ln then [Dense (ds ! i) None b, LayerNormalization None (Float_lit 1 (- 5)), Activation act]
                              else [Dense (ds ! i) act b]) [0..<length ds]
      = map (\<lambda>w. if ln then [Dense w None b, LayerNormalization None (Float_lit 1 (- 5)), Activation act]
                              else [Dense w act b]) (map ((!) ds) [0..<length ds])"
    by (simp add: comp_def)
  then show ?thesis by (simp add: TfMLP_loop_append map_nth)
qed

lemma TfCNN_loop_append:
  "TfCNN_loop ln act b specs layers =
     layers @ concat (map (\<lambda>(nf, k, s). if ln then [Conv2D nf k s ''same'' b None, LayerNormalization (Some [- 3, - 2, - 1]) (Float_lit 1 (- 5)), Activation act]
                              else [Conv2D nf k s ''same'' b act]) specs)"
  by (induction specs arbitrary: layers) auto

text \<open>
  In the transposed stack the test \<^verbatim>\<open>i == len(...) - 1\<close> fails at every index before
  the last one and holds at the last one.
\<close>

lemma TfCNNTranspose_loop_app:
  "TfCNNTranspose_loop act ln b n (es @ fs) layers =
     TfCNNTranspose_loop act ln b n fs (TfCNNTranspose_loop act ln b n es layers)"
  by (induction es arbitrary: layers) (auto simp: Let_def)

lemma TfCNNTranspose_loop_nonfinal:
  "i + length xs < n \<Longrightarrow>
   TfCNNTranspose_loop act ln b n (enumerate i xs) layers =
     layers @ concat (map (\<lambda>(nf, k, s).
        if ln then [Conv2DTranspose nf k s ''same'' None b,
                    LayerNormalization (Some [- 3, - 2, - 1]) (Float_lit 1 (- 5)), Activation act]
        else [Conv2DTranspose nf k s ''same'' act b]) xs)"
proof (induction xs arbitrary: i layers)
  case Nil
  then show ?case by simp
next
  case (Cons x xs)
  obtain nf k s where x: "x = (nf, k, s)" by (cases x)
  from Cons.prems have "int i \<noteq> int n - 1" and "Suc i + length xs < n" by auto
  with Cons.IH [of "Suc i"] show ?case by (simp add: x Let_def)
qed

lemma TfCNNTranspose_loop_snoc:
  "TfCNNTranspose_loop act ln b (Suc (length xs)) (enumerate 0 (xs @ [(nf, k, s)])) layers =
     layers @ concat (map (\<lambda>(nf, k, s).
        if ln then [Conv2DTranspose nf k s ''same'' None b,
                    LayerNormalization (Some [- 3, - 2, - 1]) (Float_lit 1 (- 5)), Activation act]
        else [Conv2DTranspose nf k s ''same'' act b]) xs)
     @ [Conv2DTranspose nf k s ''same'' None True]"
proof -
  have "enumerate 0 (xs @ [(nf, k, s)]) = enumerate 0 xs @ [(length xs, nf, k, s)]"
    by (simp add: enumerate_append_eq)
  then show ?thesis
    by (simp add: TfCNNTranspose_loop_app TfCNNTranspose_loop_nonfinal)
qed

lemma length_filter_Conv2DTranspose_blocks:
  "length (filter is_Conv2DTranspose (concat (map (\<lambda>(nf, k, s).
        if ln then [Conv2DTranspose nf k s ''same'' None b,
                    LayerNormalization (Some [- 3, - 2, - 1]) (Float_lit 1 (- 5)), Activation act]
        else [Conv2DTranspose nf k s ''same'' act b]) xs))) = length xs"
  by (induction xs) auto

lemma use_bias_Conv2DTranspose_blocks:
  "map layer_use_bias (filter is_Conv2DTranspose (concat (map (\<lambda>(nf, k, s).
        if ln then [Conv2DTranspose nf k s ''same'' None b,
                    LayerNormalization (Some [- 3, - 2, - 1]) (Float_lit 1 (- 5)), Activation act]
        else [Conv2DTranspose nf k s ''same'' act b]) xs))) = replicate (length xs) b"
  by (induction xs) auto

lemma count_LayerNormalization_blocks:
  "length (filter is_LayerNormalization (concat (map (\<lambda>w.
      [Dense w None b, LayerNormalization None e, Activation ha]) ds))) = length ds"
  by (induction ds) auto

lemma count_Dense_blocks:
  "length (filter is_Dense (concat (map (\<lambda>w.
      if ln then [Dense w None b, LayerNormalization None e, Activation ha]
      else [Dense w ha b]) ds))) = length ds"
  by (induction ds) auto

lemma use_bias_Dense_blocks:
  "l \<in> set (concat (map (\<lambda>w.
      if ln then [Dense w None b, LayerNormalization None e, Activation ha]
      else [Dense w ha b]) ds)) \<Longrightarrow> is_Dense l \<Longrightarrow> layer_use_bias l = b"
  by (induction ds) (auto split: if_splits)

section \<open>When a constructor returns\<close>

text \<open>
  A constructor that returns has passed its \<^verbatim>\<open>assert\<close> and has resolved the
  activations it needs; the model it returns holds the list the loop built.
\<close>

lemma TfMLP_init_Inr:
  assumes "TfMLP_init r idim ds ln hact odim oact b = Inr m"
  shows "idim > 0 \<and> (\<exists>ha. r hact = Inr ha \<and>
     (case odim of
        None \<Rightarrow> network m = TfMLP_loop ds ln ha b [0..<length ds] [Input [idim]]
      | Some d \<Rightarrow> (\<exists>oa. r oact = Inr oa \<and>
          network m = TfMLP_loop ds ln ha b [0..<length ds] [Input [idim]] @ [Dense d oa b])))"
  using assms
  by (auto simp: TfMLP_init_def Let_def split: if_splits sum.splits option.splits)

lemma TfMLP_init_no_output:
  assumes "TfMLP_init r idim ds ln hact odim oact b = Inr m"
  shows "\<exists>ha. r hact = Inr ha \<and> TfMLP_init r idim ds ln hact None oact' b =
     Inr \<lparr>network = TfMLP_loop ds ln ha b [0..<length ds] [Input [idim]]\<rparr>"
  using assms
  by (auto simp: TfMLP_init_def Let_def split: if_splits sum.splits option.splits)

lemma TfCNN_init_Inr:
  assumes "TfCNN_init r dims specs ln a b = Inr m"
  shows "length dims = 3 \<and> (\<exists>act. r a = Inr act \<and>
     cnn m = TfCNN_loop ln act b specs [Input dims] \<and> expected_input_dtype m = tf_float32)"
  using assms by (auto simp: TfCNN_init_def Let_def split: if_splits sum.splits)

lemma TfCNNTranspose_init_Inr:
  assumes "TfCNNTranspose_init r dims specs a ln b = Inr m"
  shows "length dims = 3 \<and> (\<exists>act. r a = Inr act \<and>
     cnn_transpose m = TfCNNTranspose_loop act ln b (length specs) (enumerate 0 specs) [Input dims]
     \<and> expected_input_dtype_transpose m = tf_float32)"
  using assms by (auto simp: TfCNNTranspose_init_def Let_def split: if_splits sum.splits)

lemma TfCNNTranspose_network:
  assumes "TfCNNTranspose_init r dims (xs @ [(nf, k, s)]) a ln b = Inr m"
  shows "\<exists>act. r a = Inr act \<and> cnn_transpose m =
     Input dims # concat (map (\<lambda>(nf, k, s).
        if ln then [Conv2DTranspose nf k s ''same'' None b,
                    LayerNormalization (Some [- 3, - 2, - 1]) (Float_lit 1 (- 5)), Activation act]
        else [Conv2DTranspose nf k s ''same'' act b]) xs)
     @ [Conv2DTranspose nf k s ''same'' None True]"
  using TfCNNTranspose_init_Inr [OF assms] by (auto simp: TfCNNTranspose_loop_snoc)

section \<open>The dense stack\<close>

text \<open>
  C3. With layer normalization enabled, every hidden width \<open>w\<close> contributes, in order,
  a Dense layer of size \<open>w\<close> with no inline activation, a LayerNormalization without
  an axis argument (feature-wise) and with epsilon \<^verbatim>\<open>1e-5\<close>, and an Activation layer
  with the resolved hidden activation. What follows these blocks is nothing, or the
  single output Dense layer, so the pipeline has as many normalization steps as hidden
  layers: the output layer adds none.
\<close>

theorem TfMLP_layernorm_blocks:
  assumes "TfMLP_init r input_dim hidden_layer_dims True hidden_layer_activation output_dim
             output_activation use_bias = Inr m"
  shows "\<exists>ha out. r hidden_layer_activation = Inr ha \<and>
           network m = Input [input_dim] #
             concat (map (\<lambda>w. [Dense w None use_bias,
                                LayerNormalization None (Float_lit 1 (- 5)),
                                Activation ha]) hidden_layer_dims) @ out \<and>
           (output_dim = None \<and> out = [] \<or>
            (\<exists>d oa. output_dim = Some d \<and> r output_activation = Inr oa \<and>
               out = [Dense d oa use_bias])) \<and>
           length (filter is_LayerNormalization (network m)) = length hidden_layer_dims"
proof -
  from TfMLP_init_Inr [OF assms] obtain ha where ha: "r hidden_layer_activation = Inr ha"
    and net: "case output_dim of
        None \<Rightarrow> network m = TfMLP_loop hidden_layer_dims True ha use_bias
                  [0..<length hidden_layer_dims] [Input [input_dim]]
      | Some d \<Rightarrow> (\<exists>oa. r output_activation = Inr oa \<and>
          network m = TfMLP_loop hidden_layer_dims True ha use_bias
             [0..<length hidden_layer_dims] [Input [input_dim]] @ [Dense d oa use_bias])"
    by blast
  let ?body = "concat (map (\<lambda>w. [Dense w None use_bias,
                                LayerNormalization None (Float_lit 1 (- 5)),
                                Activation ha]) hidden_layer_dims)"
  have loop: "TfMLP_loop hidden_layer_dims True ha use_bias
                  [0..<length hidden_layer_dims] [Input [input_dim]] = Input [input_dim] # ?body"
    by (simp add: TfMLP_loop_range)
  have cnt: "length (filter is_LayerNormalization ?body) = length hidden_layer_dims"
    by (rule count_LayerNormalization_blocks)
  show ?thesis
  proof (cases output_dim)
    case None
    with net loop have "network m = Input [input_dim] # ?body @ []" by simp
    with ha cnt None show ?thesis by (intro exI [of _ ha] exI [of _ "[]"]) simp
  next
    case (Some d)
    with net loop obtain oa where "r output_activation = Inr oa" and
      "network m = Input [input_dim] # ?body @ [Dense d oa use_bias]" by auto
    with ha cnt Some show ?thesis
      by (intro exI [of _ ha] exI [of _ "[Dense d oa use_bias]"]) simp
  qed
qed

theorem TfMLP_layernorm_blocks_witness:
  "TfMLP_init example_get_activation_fn 4 [8, 8] True (ActName ''relu'') (Some 2)
     (ActName ''linear'') True =
     Inr \<lparr>network =
       [Input [4],
        Dense 8 None True, LayerNormalization None (Float_lit 1 (- 5)), Activation (Some ''relu''),
        Dense 8 None True, LayerNormalization None (Float_lit 1 (- 5)), Activation (Some ''relu''),
        Dense 2 None True]\<rparr> \<and>
   length (filter is_LayerNormalization
     [Input [4],
      Dense 8 None True, LayerNormalization None (Float_lit 1 (- 5)), Activation (Some ''relu''),
      Dense 8 None True, LayerNormalization None (Float_lit 1 (- 5)), Activation (Some ''relu''),
      Dense 2 None True]) = length [8, 8 :: int]"
  (is "?I = Inr ?M \<and> ?C")
proof -
  have h: "?I = Inr ?M"
    by (simp add: TfMLP_init_def example_get_activation_fn_def)
  from TfMLP_layernorm_blocks [OF h] have ?C by simp
  with h show ?thesis by simp
qed

text \<open>
  C4. The pipeline for an \<^verbatim>\<open>output_dim\<close> that is not \<^verbatim>\<open>None\<close> is the pipeline for
  \<^verbatim>\<open>output_dim=None\<close> (which has one Dense layer per hidden width) followed by
  exactly one Dense layer of size \<^verbatim>\<open>output_dim\<close> with the resolved output activation
  inline; for \<^verbatim>\<open>None\<close> nothing is added. The output layer is the last layer, so no
  normalization follows it, whatever \<^verbatim>\<open>hidden_layer_use_layernorm\<close> is. Every Dense
  layer of the pipeline, the output layer included, has the \<^verbatim>\<open>use_bias\<close> flag of the
  constructor.
\<close>

theorem TfMLP_output_layer:
  assumes "TfMLP_init r input_dim hidden_layer_dims hidden_layer_use_layernorm
             hidden_layer_activation output_dim output_activation use_bias = Inr m"
  shows "\<exists>m0. TfMLP_init r input_dim hidden_layer_dims hidden_layer_use_layernorm
             hidden_layer_activation None output_activation use_bias = Inr m0 \<and>
           length (filter is_Dense (network m0)) = length hidden_layer_dims \<and>
           (case output_dim of
              None \<Rightarrow> network m = network m0
            | Some d \<Rightarrow> (\<exists>oa. r output_activation = Inr oa \<and>
                network m = network m0 @ [Dense d oa use_bias])) \<and>
           (\<forall>l \<in> set (network m). is_Dense l \<longrightarrow> layer_use_bias l = use_bias)"
proof -
  from TfMLP_init_Inr [OF assms] obtain ha where ha: "r hidden_layer_activation = Inr ha"
    and net: "case output_dim of
        None \<Rightarrow> network m = TfMLP_loop hidden_layer_dims hidden_layer_use_layernorm ha use_bias
                  [0..<length hidden_layer_dims] [Input [input_dim]]
      | Some d \<Rightarrow> (\<exists>oa. r output_activation = Inr oa \<and>
          network m = TfMLP_loop hidden_layer_dims hidden_layer_use_layernorm ha use_bias
             [0..<length hidden_layer_dims] [Input [input_dim]] @ [Dense d oa use_bias])"
    by blast
  let ?hidden = "TfMLP_loop hidden_layer_dims hidden_layer_use_layernorm ha use_bias
                  [0..<length hidden_layer_dims] [Input [input_dim]]"
  from TfMLP_init_no_output [OF assms, of output_activation] ha
  have m0: "TfMLP_init r input_dim hidden_layer_dims hidden_layer_use_layernorm
             hidden_layer_activation None output_activation use_bias = Inr \<lparr>network = ?hidden\<rparr>"
    by simp
  have cnt: "length (filter is_Dense ?hidden) = length hidden_layer_dims"
    by (simp add: TfMLP_loop_range count_Dense_blocks)
  have bias: "\<forall>l \<in> set ?hidden. is_Dense l \<longrightarrow> layer_use_bias l = use_bias"
    by (auto simp: TfMLP_loop_range dest: use_bias_Dense_blocks)
  have "(case output_dim of
              None \<Rightarrow> network m = ?hidden
            | Some d \<Rightarrow> (\<exists>oa. r output_activation = Inr oa \<and>
                network m = ?hidden @ [Dense d oa use_bias])) \<and>
           (\<forall>l \<in> set (network m). is_Dense l \<longrightarrow> layer_use_bias l = use_bias)"
    using net bias by (cases output_dim) auto
  with m0 cnt show ?thesis
    by (intro exI [of _ "\<lparr>network = ?hidden\<rparr>"]) (simp split: option.splits)
qed

theorem TfMLP_output_layer_witness:
  "TfMLP_init example_get_activation_fn 4 [8] False (ActName ''relu'') (Some 2)
     (ActName ''silu'') False =
     Inr \<lparr>network = [Input [4], Dense 8 (Some ''relu'') False, Dense 2 (Some ''silu'') False]\<rparr> \<and>
   TfMLP_init example_get_activation_fn 4 [8] False (ActName ''relu'') None
     (ActName ''silu'') False =
     Inr \<lparr>network = [Input [4], Dense 8 (Some ''relu'') False]\<rparr> \<and>
   list_all (\<lambda>l. layer_use_bias l = False)
     (filter is_Dense [Input [4], Dense 8 (Some ''relu'') False, Dense 2 (Some ''silu'') False])"
  (is "?I = Inr ?M \<and> ?J = Inr ?N \<and> ?C")
proof -
  have h: "?I = Inr ?M"
    by (simp add: TfMLP_init_def example_get_activation_fn_def)
  from TfMLP_output_layer [OF h] obtain m0 where
    "?J = Inr m0" and "network ?M = network m0 @ [Dense 2 (Some ''silu'') False]"
    and "\<forall>l \<in> set (network ?M). is_Dense l \<longrightarrow> layer_use_bias l = False"
    by (auto simp: example_get_activation_fn_def)
  with h show ?thesis by (cases m0) simp
qed

text \<open>
  C6. For \<^verbatim>\<open>input_dim > 0\<close>, an empty \<^verbatim>\<open>hidden_layer_dims\<close> and an \<^verbatim>\<open>output_dim\<close>
  that is not \<^verbatim>\<open>None\<close>, the constructor returns exactly when both activations
  resolve, and the pipeline is then the input followed by one Dense layer of size
  \<^verbatim>\<open>output_dim\<close> with the resolved output activation and the \<^verbatim>\<open>use_bias\<close> flag.
\<close>

theorem TfMLP_single_layer:
  assumes "input_dim > 0"
  shows "TfMLP_init r input_dim [] hidden_layer_use_layernorm hidden_layer_activation
           (Some d) output_activation use_bias = Inr m \<longleftrightarrow>
         (\<exists>ha oa. r hidden_layer_activation = Inr ha \<and> r output_activation = Inr oa \<and>
            m = \<lparr>network = [Input [input_dim], Dense d oa use_bias]\<rparr>)"
  using assms by (auto simp: TfMLP_init_def split: sum.splits)

theorem TfMLP_single_layer_witness:
  "(0 :: int) < 4 \<and>
   TfMLP_init example_get_activation_fn 4 [] True (ActName ''relu'') (Some 2)
     (ActName ''silu'') False =
     Inr \<lparr>network = [Input [4], Dense 2 (Some ''silu'') False]\<rparr>"
proof -
  have h: "(0 :: int) < 4" by simp
  from TfMLP_single_layer [OF h, of example_get_activation_fn True "ActName ''relu''" 2
      "ActName ''silu''" False "\<lparr>network = [Input [4], Dense 2 (Some ''silu'') False]\<rparr>"]
  show ?thesis by (simp add: example_get_activation_fn_def)
qed

text \<open>
  C9, as amended. For \<^verbatim>\<open>input_dim > 0\<close>, an empty \<^verbatim>\<open>hidden_layer_dims\<close>, no
  \<^verbatim>\<open>output_dim\<close> and a hidden activation that the resolver accepts, the constructor
  returns a pipeline that holds the input and no Dense, LayerNormalization or
  Activation layer; the output activation is not looked at. The hidden activation is
  resolved before the loop over the (empty) list of widths, so with a hidden
  activation that the resolver rejects the constructor raises for this shape of
  configuration too, as the evaluation after the theorem shows.
\<close>

theorem TfMLP_empty:
  assumes "input_dim > 0" and "r hidden_layer_activation = Inr ha"
  shows "TfMLP_init r input_dim [] hidden_layer_use_layernorm hidden_layer_activation
           None output_activation use_bias = Inr \<lparr>network = [Input [input_dim]]\<rparr>"
  using assms by (simp add: TfMLP_init_def)

theorem TfMLP_empty_witness:
  "(0 :: int) < 4 \<and> example_get_activation_fn (ActName ''relu'') = Inr (Some ''relu'') \<and>
   TfMLP_init example_get_activation_fn 4 [] True (ActName ''relu'') None
     (ActName ''no_such_activation'') False = Inr \<lparr>network = [Input [4]]\<rparr>"
proof -
  have h: "(0 :: int) < 4" by simp
  have r: "example_get_activation_fn (ActName ''relu'') = Inr (Some ''relu'')"
    by (simp add: example_get_activation_fn_def)
  from TfMLP_empty [where r = example_get_activation_fn
      and hidden_layer_activation = "ActName ''relu''", OF h r] h r
  show ?thesis by simp
qed

theorem TfMLP_empty_counterexample:
  "TfMLP_init example_get_activation_fn 4 [] False (ActName ''no_such_activation'') None
     (ActName ''linear'') True = Inl ActivationError"
  by (simp add: TfMLP_init_def example_get_activation_fn_def)

text \<open>
  C10. Forward evaluation of a TfMLP hands the inputs, exactly as supplied, to the
  Sequential pipeline: \<^verbatim>\<open>call\<close> takes no cast and applies none, whatever the model and
  the inputs are.
\<close>

theorem TfMLP_call_no_cast:
  "TfMLP_call sequential self inputs = sequential (network self) inputs"
  by (simp add: TfMLP_call_def)

section \<open>The convolutional stack\<close>

text \<open>
  C5. Every filter specifier (filters, kernel, stride) contributes, in order, one
  Conv2D layer with padding \<^verbatim>\<open>"same"\<close> and the \<^verbatim>\<open>use_bias\<close> flag of the constructor.
  With layer normalization the convolution has no inline activation and is followed by
  a LayerNormalization over the axes \<^verbatim>\<open>[-3, -2, -1]\<close> with epsilon \<^verbatim>\<open>1e-5\<close> and by an
  Activation layer; without it the convolution carries the resolved activation inline
  and nothing else is added.
\<close>

theorem TfCNN_pipeline:
  assumes "TfCNN_init r input_dims cnn_filter_specifiers cnn_use_layernorm cnn_activation
             use_bias = Inr m"
  shows "\<exists>act. r cnn_activation = Inr act \<and>
           cnn m = Input input_dims #
             concat (map (\<lambda>(filters, kernel, stride).
                 if cnn_use_layernorm
                 then [Conv2D filters kernel stride ''same'' use_bias None,
                       LayerNormalization (Some [- 3, - 2, - 1]) (Float_lit 1 (- 5)),
                       Activation act]
                 else [Conv2D filters kernel stride ''same'' use_bias act])
               cnn_filter_specifiers)"
  using TfCNN_init_Inr [OF assms] by (auto simp: TfCNN_loop_append)

theorem TfCNN_pipeline_witness:
  "TfCNN_init example_get_activation_fn [16, 16, 3]
     [(32, Square 3, Square 1), (64, WxH 3 3, Square 2)] True (ActName ''relu'') True =
     Inr \<lparr>cnn =
       [Input [16, 16, 3],
        Conv2D 32 (Square 3) (Square 1) ''same'' True None,
        LayerNormalization (Some [- 3, - 2, - 1]) (Float_lit 1 (- 5)),
        Activation (Some ''relu''),
        Conv2D 64 (WxH 3 3) (Square 2) ''same'' True None,
        LayerNormalization (Some [- 3, - 2, - 1]) (Float_lit 1 (- 5)),
        Activation (Some ''relu'')],
       expected_input_dtype = tf_float32\<rparr> \<and>
   (\<exists>act. example_get_activation_fn (ActName ''relu'') = Inr act \<and>
      [Input [16, 16, 3],
       Conv2D 32 (Square 3) (Square 1) ''same'' True None,
       LayerNormalization (Some [- 3, - 2, - 1]) (Float_lit 1 (- 5)),
       Activation (Some ''relu''),
       Conv2D 64 (WxH 3 3) (Square 2) ''same'' True None,
       LayerNormalization (Some [- 3, - 2, - 1]) (Float_lit 1 (- 5)),
       Activation (Some ''relu'')] =
      Input [16, 16, 3] #
        concat (map (\<lambda>(filters, kernel, stride).
            [Conv2D filters kernel stride ''same'' True None,
             LayerNormalization (Some [- 3, - 2, - 1]) (Float_lit 1 (- 5)),
             Activation act])
          [(32, Square 3, Square 1), (64, WxH 3 3, Square 2)]))"
  (is "?I = Inr ?M \<and> ?C")
proof -
  have h: "?I = Inr ?M"
    by (simp add: TfCNN_init_def example_get_activation_fn_def)
  from TfCNN_pipeline [OF h] have ?C by simp
  with h show ?thesis by simp
qed

section \<open>The transposed convolutional stack\<close>

text \<open>
  C1. For a non-empty list of filter specifiers, the pipeline ends with the
  Conv2DTranspose layer built from the last specifier, and that layer is the last of
  the \<^verbatim>\<open>len(...)\<close> transposed convolutions. Its inline activation is \<^verbatim>\<open>None\<close>
  whatever the configured activation and the normalization flag are, and since it is
  the last element of the pipeline, no LayerNormalization and no Activation layer
  follows it, also when normalization is enabled.
\<close>

theorem TfCNNTranspose_final_layer:
  assumes "TfCNNTranspose_init r dims specs a ln b = Inr m" and "specs \<noteq> []"
  shows "\<exists>pre nf k s. last specs = (nf, k, s) \<and>
           cnn_transpose m = pre @ [Conv2DTranspose nf k s ''same'' None True] \<and>
           length (filter is_Conv2DTranspose pre) = length specs - 1"
proof -
  obtain xs nf k s where specs: "specs = xs @ [(nf, k, s)]"
    using assms(2) by (metis rev_exhaust prod_cases3)
  from TfCNNTranspose_network [OF assms(1) [unfolded specs]]
  obtain act where "cnn_transpose m =
     (Input dims # concat (map (\<lambda>(nf, k, s).
        if ln then [Conv2DTranspose nf k s ''same'' None b,
                    LayerNormalization (Some [- 3, - 2, - 1]) (Float_lit 1 (- 5)), Activation act]
        else [Conv2DTranspose nf k s ''same'' act b]) xs))
     @ [Conv2DTranspose nf k s ''same'' None True]" by auto
  moreover have "length (filter is_Conv2DTranspose (Input dims # concat (map (\<lambda>(nf, k, s).
        if ln then [Conv2DTranspose nf k s ''same'' None b,
                    LayerNormalization (Some [- 3, - 2, - 1]) (Float_lit 1 (- 5)), Activation act]
        else [Conv2DTranspose nf k s ''same'' act b]) xs))) = length specs - 1"
    by (simp add: length_filter_Conv2DTranspose_blocks specs)
  ultimately show ?thesis using specs by auto
qed

theorem TfCNNTranspose_final_layer_witness:
  "TfCNNTranspose_init example_get_activation_fn [4, 4, 8]
     [(16, Square 3, Square 2), (3, WxH 3 3, Square 2)] (ActName ''relu'') True False =
     Inr \<lparr>cnn_transpose =
       [Input [4, 4, 8],
        Conv2DTranspose 16 (Square 3) (Square 2) ''same'' None False,
        LayerNormalization (Some [- 3, - 2, - 1]) (Float_lit 1 (- 5)),
        Activation (Some ''relu''),
        Conv2DTranspose 3 (WxH 3 3) (Square 2) ''same'' None True],
       expected_input_dtype_transpose = tf_float32\<rparr> \<and>
   [(16, Square 3, Square 2), (3, WxH 3 3, Square 2)] \<noteq> ([] :: filter_spec list) \<and>
   (\<exists>pre.
      [Input [4, 4, 8],
       Conv2DTranspose 16 (Square 3) (Square 2) ''same'' None False,
       LayerNormalization (Some [- 3, - 2, - 1]) (Float_lit 1 (- 5)),
       Activation (Some ''relu''),
       Conv2DTranspose 3 (WxH 3 3) (Square 2) ''same'' None True] =
      pre @ [Conv2DTranspose 3 (WxH 3 3) (Square 2) ''same'' None True] \<and>
      length (filter is_Conv2DTranspose pre) = 1)"
  (is "?I = Inr ?M \<and> ?ne \<and> ?C")
proof -
  have h: "?I = Inr ?M"
    by (simp add: TfCNNTranspose_init_def example_get_activation_fn_def)
  have ne: ?ne by simp
  from TfCNNTranspose_final_layer [OF h ne] have ?C by simp
  with h ne show ?thesis by simp
qed

text \<open>
  C2. For a non-empty list of filter specifiers, reading the \<^verbatim>\<open>use_bias\<close> argument
  of the transposed convolutions in pipeline order gives the \<^verbatim>\<open>use_bias\<close> flag of the
  constructor for every layer but the last, and \<^verbatim>\<open>True\<close> for the last, also when the
  flag is \<^verbatim>\<open>False\<close>.
\<close>

theorem TfCNNTranspose_bias:
  assumes "TfCNNTranspose_init r dims specs a ln b = Inr m" and "specs \<noteq> []"
  shows "map layer_use_bias (filter is_Conv2DTranspose (cnn_transpose m)) =
           replicate (length specs - 1) b @ [True]"
proof -
  obtain xs nf k s where specs: "specs = xs @ [(nf, k, s)]"
    using assms(2) by (metis rev_exhaust prod_cases3)
  from TfCNNTranspose_network [OF assms(1) [unfolded specs]]
  obtain act where "cnn_transpose m =
     Input dims # concat (map (\<lambda>(nf, k, s).
        if ln then [Conv2DTranspose nf k s ''same'' None b,
                    LayerNormalization (Some [- 3, - 2, - 1]) (Float_lit 1 (- 5)), Activation act]
        else [Conv2DTranspose nf k s ''same'' act b]) xs)
     @ [Conv2DTranspose nf k s ''same'' None True]" by auto
  then show ?thesis
    by (simp add: use_bias_Conv2DTranspose_blocks specs)
qed

theorem TfCNNTranspose_bias_witness:
  "TfCNNTranspose_init example_get_activation_fn [4, 4, 8]
     [(16, Square 3, Square 2), (8, Square 3, Square 2), (3, WxH 3 3, Square 2)]
     (ActName ''relu'') False False =
     Inr \<lparr>cnn_transpose =
       [Input [4, 4, 8],
        Conv2DTranspose 16 (Square 3) (Square 2) ''same'' (Some ''relu'') False,
        Conv2DTranspose 8 (Square 3) (Square 2) ''same'' (Some ''relu'') False,
        Conv2DTranspose 3 (WxH 3 3) (Square 2) ''same'' None True],
       expected_input_dtype_transpose = tf_float32\<rparr> \<and>
   [(16, Square 3, Square 2), (8, Square 3, Square 2), (3, WxH 3 3, Square 2)] \<noteq>
     ([] :: filter_spec list) \<and>
   map layer_use_bias (filter is_Conv2DTranspose
       [Input [4, 4, 8],
        Conv2DTranspose 16 (Square 3) (Square 2) ''same'' (Some ''relu'') False,
        Conv2DTranspose 8 (Square 3) (Square 2) ''same'' (Some ''relu'') False,
        Conv2DTranspose 3 (WxH 3 3) (Square 2) ''same'' None True]) = [False, False, True]"
  (is "?I = Inr ?M \<and> ?ne \<and> ?C")
proof -
  have h: "?I = Inr ?M"
    by (simp add: TfCNNTranspose_init_def example_get_activation_fn_def)
  have ne: ?ne by simp
  from TfCNNTranspose_bias [OF h ne] have ?C by (simp add: numeral_3_eq_3)
  with h ne show ?thesis by simp
qed

section \<open>Forward evaluation of the convolutional stacks\<close>

text \<open>
  C7. A TfCNN and a TfCNNTranspose that their constructors return evaluate the
  Sequential pipeline on \<^verbatim>\<open>tf.cast(inputs, tf.float32)\<close>: the target type of the cast is
  \<^verbatim>\<open>tf.float32\<close> for every input, whatever its own type.
\<close>

theorem Tf_conv_call_casts_to_float32:
  "(TfCNN_init r input_dims specs ln a b = Inr m \<longrightarrow>
      TfCNN_call sequential tf_cast m inputs = sequential (cnn m) (tf_cast inputs tf_float32)) \<and>
   (TfCNNTranspose_init r input_dims specs a ln b = Inr mt \<longrightarrow>
      TfCNNTranspose_call sequential tf_cast mt inputs =
        sequential (cnn_transpose mt) (tf_cast inputs tf_float32))"
  by (auto simp: TfCNN_call_def TfCNNTranspose_call_def
        dest!: TfCNN_init_Inr TfCNNTranspose_init_Inr)

theorem Tf_conv_call_casts_to_float32_witness:
  "TfCNN_init example_get_activation_fn [16, 16, 3] [(32, Square 3, Square 1)] False
     (ActName ''relu'') True =
     Inr \<lparr>cnn = [Input [16, 16, 3], Conv2D 32 (Square 3) (Square 1) ''same'' True (Some ''relu'')],
          expected_input_dtype = tf_float32\<rparr> \<and>
   TfCNN_call (\<lambda>layers x. (length layers, x)) (\<lambda>x d. (d, snd x))
     \<lparr>cnn = [Input [16, 16, 3], Conv2D 32 (Square 3) (Square 1) ''same'' True (Some ''relu'')],
      expected_input_dtype = tf_float32\<rparr> (tf_uint8, [1, 2, 3 :: int]) =
     (2, (tf_float32, [1, 2, 3])) \<and>
   TfCNNTranspose_init example_get_activation_fn [16, 16, 3] [(32, Square 3, Square 1)]
     (ActName ''relu'') False True =
     Inr \<lparr>cnn_transpose =
            [Input [16, 16, 3],
             Conv2DTranspose 32 (Square 3) (Square 1) ''same'' (None :: string option) True],
          expected_input_dtype_transpose = tf_float32\<rparr> \<and>
   TfCNNTranspose_call (\<lambda>layers x. (length layers, x)) (\<lambda>x d. (d, snd x))
     \<lparr>cnn_transpose =
        [Input [16, 16, 3],
         Conv2DTranspose 32 (Square 3) (Square 1) ''same'' (None :: string option) True],
      expected_input_dtype_transpose = tf_float32\<rparr> (tf_uint8, [1, 2, 3 :: int]) =
     (2, (tf_float32, [1, 2, 3]))"
  (is "?I = Inr ?M \<and> ?C \<and> ?IT = Inr ?MT \<and> ?CT")
proof -
  have h: "?I = Inr ?M"
    by (simp add: TfCNN_init_def example_get_activation_fn_def)
  have ht: "?IT = Inr ?MT"
    by (simp add: TfCNNTranspose_init_def example_get_activation_fn_def)
  from Tf_conv_call_casts_to_float32 [where r = example_get_activation_fn
      and input_dims = "[16, 16, 3]" and specs = "[(32, Square 3, Square 1)]" and ln = False
      and a = "ActName ''relu''" and b = True and m = ?M and mt = ?MT
      and sequential = "\<lambda>layers x. (length layers, x)" and tf_cast = "\<lambda>x d. (d, snd x)"
      and inputs = "(tf_uint8, [1, 2, 3 :: int])"] h ht
  have "?C \<and> ?CT" by simp
  with h ht show ?thesis by simp
qed

section \<open>Failing constructions\<close>

text \<open>
  C8, as amended. A constructor returns an error, and no model, when TfMLP is given
  \<^verbatim>\<open>input_dim <= 0\<close>, when TfCNN or TfCNNTranspose is given \<^verbatim>\<open>input_dims\<close> whose
  length is not 3 (both an \<^verbatim>\<open>AssertionError\<close>), and when the resolver rejects an
  activation that the constructor resolves: the hidden activation of TfMLP and the
  activation of TfCNN and TfCNNTranspose always, the output activation of TfMLP when
  \<^verbatim>\<open>output_dim\<close> is not \<^verbatim>\<open>None\<close>. With \<^verbatim>\<open>output_dim=None\<close> the output activation
  is never resolved, and an output activation name that the resolver rejects does not
  stop the construction, as the evaluation after the theorem shows.
\<close>

theorem construction_fails_fast:
  "(input_dim \<le> 0 \<longrightarrow>
      TfMLP_init r input_dim hidden_layer_dims ln hact output_dim oact b = Inl AssertionError) \<and>
   (length input_dims \<noteq> 3 \<longrightarrow>
      TfCNN_init r input_dims specs ln act b = Inl AssertionError \<and>
      TfCNNTranspose_init r input_dims specs act ln b = Inl AssertionError) \<and>
   (r hact = Inl e \<longrightarrow>
      isl (TfMLP_init r input_dim hidden_layer_dims ln hact output_dim oact b)) \<and>
   (output_dim \<noteq> None \<and> r oact = Inl e \<longrightarrow>
      isl (TfMLP_init r input_dim hidden_layer_dims ln hact output_dim oact b)) \<and>
   (r act = Inl e \<longrightarrow>
      isl (TfCNN_init r input_dims specs ln act b) \<and>
      isl (TfCNNTranspose_init r input_dims specs act ln b))"
  by (auto simp: TfMLP_init_def TfCNN_init_def TfCNNTranspose_init_def Let_def
        split: sum.splits option.splits)

theorem construction_fails_fast_witness:
  "(0 :: int) \<le> 0 \<and>
   TfMLP_init example_get_activation_fn 0 [8] False (ActName ''relu'') (Some 2)
     (ActName ''linear'') True = Inl AssertionError \<and>
   length [16, 16 :: int] \<noteq> 3 \<and>
   TfCNN_init example_get_activation_fn [16, 16] [(32, Square 3, Square 1)] False
     (ActName ''relu'') True = Inl AssertionError \<and>
   TfCNNTranspose_init example_get_activation_fn [16, 16] [(32, Square 3, Square 1)]
     (ActName ''relu'') False True = Inl AssertionError \<and>
   example_get_activation_fn (ActName ''no_such_activation'') = Inl ActivationError \<and>
   isl (TfMLP_init example_get_activation_fn 4 [8] False (ActName ''no_such_activation'')
     (Some 2) (ActName ''linear'') True) \<and>
   Some (2 :: int) \<noteq> None \<and>
   isl (TfMLP_init example_get_activation_fn 4 [8] False (ActName ''relu'')
     (Some 2) (ActName ''no_such_activation'') True) \<and>
   isl (TfCNN_init example_get_activation_fn [16, 16, 3] [(32, Square 3, Square 1)] False
     (ActName ''no_such_activation'') True) \<and>
   isl (TfCNNTranspose_init example_get_activation_fn [16, 16, 3] [(32, Square 3, Square 1)]
     (ActName ''no_such_activation'') False True)"
proof -
  have bad: "example_get_activation_fn (ActName ''no_such_activation'') = Inl ActivationError"
    by (simp add: example_get_activation_fn_def)
  have a1: "(0 :: int) \<le> 0" and a2: "length [16, 16 :: int] \<noteq> 3"
    and a3: "Some (2 :: int) \<noteq> None"
    by simp_all
  note f1 = construction_fails_fast [of 0 example_get_activation_fn "[8]" False
      "ActName ''relu''" "Some 2" "ActName ''linear''" True "[16, 16]"
      "[(32, Square 3, Square 1)]" "ActName ''relu''" ActivationError]
  note f2 = construction_fails_fast [of 4 example_get_activation_fn "[8]" False
      "ActName ''no_such_activation''" "Some 2" "ActName ''linear''" True "[16, 16, 3]"
      "[(32, Square 3, Square 1)]" "ActName ''no_such_activation''" ActivationError]
  note f3 = construction_fails_fast [of 4 example_get_activation_fn "[8]" False
      "ActName ''relu''" "Some 2" "ActName ''no_such_activation''" True "[16, 16, 3]"
      "[(32, Square 3, Square 1)]" "ActName ''relu''" ActivationError]
  from f1 a1 a2 have
    "TfMLP_init example_get_activation_fn 0 [8] False (ActName ''relu'') (Some 2)
       (ActName ''linear'') True = Inl AssertionError"
    "TfCNN_init example_get_activation_fn [16, 16] [(32, Square 3, Square 1)] False
       (ActName ''relu'') True = Inl AssertionError"
    "TfCNNTranspose_init example_get_activation_fn [16, 16] [(32, Square 3, Square 1)]
       (ActName ''relu'') False True = Inl AssertionError"
    by blast+
  moreover from f2 bad have
    "isl (TfMLP_init example_get_activation_fn 4 [8] False (ActName ''no_such_activation'')
       (Some 2) (ActName ''linear'') True)"
    "isl (TfCNN_init example_get_activation_fn [16, 16, 3] [(32, Square 3, Square 1)] False
       (ActName ''no_such_activation'') True)"
    "isl (TfCNNTranspose_init example_get_activation_fn [16, 16, 3] [(32, Square 3, Square 1)]
       (ActName ''no_such_activation'') False True)"
    by blast+
  moreover from f3 bad a3 have
    "isl (TfMLP_init example_get_activation_fn 4 [8] False (ActName ''relu'')
       (Some 2) (ActName ''no_such_activation'') True)"
    by blast
  ultimately show ?thesis using bad a1 a2 a3 by blast
qed

theorem construction_fails_fast_counterexample:
  "example_get_activation_fn (ActName ''no_such_activation'') = Inl ActivationError \<and>
   TfMLP_init example_get_activation_fn 4 [8] False (ActName ''relu'') None
     (ActName ''no_such_activation'') True =
     Inr \<lparr>network = [Input [4], Dense 8 (Some ''relu'') True]\<rparr>"
  by (simp add: TfMLP_init_def example_get_activation_fn_def)

end
